theory Spec2Isabelle
  imports Main
begin

section \<open>The syntax trees of the host language\<close>

text \<open>
  The compiler of \<^verbatim>\<open>mcmx/compiler/sample.py\<close> works on the trees of Python's
  \<^verbatim>\<open>ast\<close> module. The node classes the compiler inspects or builds are constructors
  of their own; every other expression class is \<open>OtherExpr\<close> (the class name and the
  child expressions), every other statement without statements below it is
  \<open>OtherStmt\<close>. Of the statements that hold statement lists, the function
  definition, the conditional and the two loops are modelled; \<^verbatim>\<open>with\<close>, \<^verbatim>\<open>try\<close> and
  class definitions are not. Source positions (\<^verbatim>\<open>lineno\<close>, \<^verbatim>\<open>col_offset\<close>) are not
  part of the model, so \<^verbatim>\<open>ast.copy_location\<close> and \<^verbatim>\<open>ast.fix_missing_locations\<close>
  have nothing to change.
\<close>

datatype expr_context = Load | Store | Del

datatype operator =
    Add | Sub | Mult | MatMult | Div | Mod | PowOp
  | LShift | RShift | BitOr | BitXor | BitAnd | FloorDiv

datatype constant_value =
    NoneValue
  | BoolValue bool
  | IntValue int
  | StrValue string
  | OtherValue string

datatype expr =
    is_Name: Name string expr_context
  | is_Constant: Constant constant_value
  | Call expr "expr list" "(string option \<times> expr) list"
  | BinOp expr operator expr
  | Attribute expr string expr_context
  | Tuple "expr list" expr_context
  | OtherExpr string "expr list"

datatype arg = Arg (arg: string) (annotation: "expr option") (type_comment: "string option")

record arguments =
  posonlyargs :: "arg list"
  args :: "arg list"
  vararg :: "arg option"
  kwonlyargs :: "arg list"
  kw_defaults :: "expr option list"
  kwarg :: "arg option"
  defaults :: "expr list"

datatype stmt =
    FunctionDef string arguments "stmt list" "expr list" "expr option"
  | Expr expr
  | Assign "expr list" expr "string option"
  | Return "expr option"
  | IfStmt expr "stmt list" "stmt list"
  | ForStmt expr expr "stmt list" "stmt list"
  | WhileStmt expr "stmt list" "stmt list"
  | Pass
  | OtherStmt string "expr list"

datatype module = Module "stmt list"

section \<open>Errors\<close>

text \<open>
  The three \<^verbatim>\<open>ValueError\<close>s of \<^verbatim>\<open>visit_Expr\<close>, each with the tree of the fragment
  the source prints with \<^verbatim>\<open>astor.code_gen.to_source\<close> (the second one also formats
  the variable's name into its message). \<open>ObjectNameNotResolved\<close> stands for a callee
  that \<^verbatim>\<open>read_object_name\<close> does not accept. The last two are raised in the driver:
  \<open>SyntaxError\<close> by \<^verbatim>\<open>compile\<close> for a parameter name used twice in one function
  definition, \<open>KeyError\<close> by \<^verbatim>\<open>namespace[compiler.fn_name]\<close> for a name the
  namespace does not hold.
\<close>

datatype error =
    NameExpectedOnLeft expr
  | NameOrConstantExpected string expr
  | DistributionExpectedOnRight expr
  | ObjectNameNotResolved expr
  | SyntaxError string
  | KeyError string

section \<open>The name resolver\<close>

text \<open>
  Modelled from the spec: \<^verbatim>\<open>read_object_name\<close> is imported from
  \<^verbatim>\<open>mcmx/compiler/utils.py\<close>, which is not among the source files. The spec (4.1)
  gives it a bare name or a chain of attribute accesses rooted at a name and has it
  return the dotted path; what it does on another shape is not said there, which is
  \<open>None\<close> here.
\<close>

fun read_object_name :: "expr \<Rightarrow> string option" where
  "read_object_name (Name ident ctx) = Some ident"
| "read_object_name (Attribute v attr ctx) =
     (case read_object_name v of
        Some path \<Rightarrow> Some (path @ ''.'' @ attr)
      | None \<Rightarrow> None)"
| "read_object_name e = None"

section \<open>The dependency classifier\<close>

text \<open>
  \<^verbatim>\<open>is_leaf_node\<close>: the loop returns \<open>False\<close> at the first parameter that is an
  \<^verbatim>\<open>ast.Name\<close> whose \<^verbatim>\<open>id\<close> is in \<^verbatim>\<open>model_vars\<close>, and \<open>True\<close> when it runs out.
\<close>

fun is_leaf_node :: "expr list \<Rightarrow> string list \<Rightarrow> bool" where
  "is_leaf_node [] model_vars = True"
| "is_leaf_node (p # params) model_vars =
     (case p of
        Name ident ctx \<Rightarrow>
          if ident \<in> set model_vars then False else is_leaf_node params model_vars
      | _ \<Rightarrow> is_leaf_node params model_vars)"

section \<open>The sample-statement synthesizer\<close>

text \<open>
  \<^verbatim>\<open>new_sample_expression\<close>: the list \<^verbatim>\<open>args\<close> starts as \<^verbatim>\<open>[rng_key]\<close> and gets
  \<^verbatim>\<open>sample_shape\<close> added when the flag is set; the statement built is
  \<^verbatim>\<open>name = distribution(arguments).sample(args)\<close>, both calls with
  \<^verbatim>\<open>keywords=[]\<close>.
\<close>

definition new_sample_expression :: "string \<Rightarrow> string \<Rightarrow> expr list \<Rightarrow> bool \<Rightarrow> stmt" where
  "new_sample_expression name distribution arguments do_add_sample_shape =
     (let args0 = [Name ''rng_key'' Load];
          args1 = (if do_add_sample_shape then args0 @ [Name ''sample_shape'' Load] else args0)
      in Assign [Name name Store]
           (Call (Attribute (Call (Name distribution Load) arguments []) ''sample'' Load)
              args1 [])
           None)"

section \<open>The compiler's state\<close>

text \<open>
  \<^verbatim>\<open>SamplerCompiler.__init__\<close>: the names of the random variables met so far and the
  name of the generated function.
\<close>

record SamplerCompiler =
  model_vars :: "string list"
  fn_name :: string

definition new_SamplerCompiler :: SamplerCompiler where
  "new_SamplerCompiler = \<lparr>model_vars = [], fn_name = ''''\<rparr>"

section \<open>The tree rewriter\<close>

text \<open>
  The loop of \<^verbatim>\<open>visit_Expr\<close> over the call's positional arguments: it raises at the
  first one that is neither an \<^verbatim>\<open>ast.Name\<close> nor an \<^verbatim>\<open>ast.Constant\<close>.
\<close>

fun check_arguments :: "string \<Rightarrow> expr list \<Rightarrow> error option" where
  "check_arguments var_name [] = None"
| "check_arguments var_name (a # arguments) =
     (if \<not> (is_Name a \<or> is_Constant a) then Some (NameOrConstantExpected var_name a)
      else check_arguments var_name arguments)"

text \<open>
  \<^verbatim>\<open>visit_Expr\<close>, on the \<^verbatim>\<open>value\<close> of the \<^verbatim>\<open>ast.Expr\<close> node. The order is the
  source's: the left operand is checked and its name appended to \<^verbatim>\<open>model_vars\<close>
  first; then the right operand, the callee's name, the positional arguments; then the
  classification, on the list that already holds the new name. An expression statement
  that is not \<^verbatim>\<open>... @ ...\<close> is returned as it is.
\<close>

definition visit_Expr :: "expr \<Rightarrow> SamplerCompiler \<Rightarrow> error + (stmt \<times> SamplerCompiler)" where
  "visit_Expr v st =
     (case v of
        BinOp left opr right \<Rightarrow>
          if opr = MatMult then
            (case left of
               Name var_name ctx \<Rightarrow>
                 (let st1 = st\<lparr>model_vars := model_vars st @ [var_name]\<rparr> in
                  case right of
                    Call func arguments keywords \<Rightarrow>
                      (case read_object_name func of
                         None \<Rightarrow> Inl (ObjectNameNotResolved func)
                       | Some distribution \<Rightarrow>
                           (case check_arguments var_name arguments of
                              Some e \<Rightarrow> Inl e
                            | None \<Rightarrow>
                                (let do_add_sample_shape = is_leaf_node arguments (model_vars st1)
                                 in Inr (new_sample_expression var_name distribution arguments
                                           do_add_sample_shape, st1))))
                  | _ \<Rightarrow> Inl (DistributionExpectedOnRight right))
             | _ \<Rightarrow> Inl (NameExpectedOnLeft left))
          else Inr (Expr v, st)
      | _ \<Rightarrow> Inr (Expr v, st))"

text \<open>
  \<^verbatim>\<open>NodeTransformer.visit\<close> and \<^verbatim>\<open>generic_visit\<close> on statements. The transformer has
  methods for \<^verbatim>\<open>FunctionDef\<close> and \<^verbatim>\<open>Expr\<close> only, so every other node is walked by
  \<^verbatim>\<open>generic_visit\<close>: its statement lists are visited in field order and each
  statement is replaced by what its visit returns; expressions hold no statement, so
  walking them changes nothing.

  \<^verbatim>\<open>visit_FunctionDef\<close> changes the signature, clears the decorators, renames the
  function and stores the new name before it walks the body.
\<close>

fun visit_stmt :: "stmt \<Rightarrow> SamplerCompiler \<Rightarrow> error + (stmt \<times> SamplerCompiler)"
  and visit_stmts :: "stmt list \<Rightarrow> SamplerCompiler \<Rightarrow> error + (stmt list \<times> SamplerCompiler)"
where
  "visit_stmt (FunctionDef name a body decorator_list returns) st =
     (let a1 = a\<lparr>args := Arg ''rng_key'' None None # args a\<rparr>;
          a2 = a1\<lparr>args := args a1 @ [Arg ''sample_shape'' None None]\<rparr>;
          a3 = a2\<lparr>defaults := defaults a2 @ [Tuple [] Load]\<rparr>;
          new_name = name @ ''_sampler'';
          st1 = st\<lparr>fn_name := new_name\<rparr>
      in case visit_stmts body st1 of
           Inl e \<Rightarrow> Inl e
         | Inr (body', st2) \<Rightarrow> Inr (FunctionDef new_name a3 body' [] returns, st2))"
| "visit_stmt (Expr v) st = visit_Expr v st"
| "visit_stmt (IfStmt test body orelse) st =
     (case visit_stmts body st of
        Inl e \<Rightarrow> Inl e
      | Inr (body', st1) \<Rightarrow>
          (case visit_stmts orelse st1 of
             Inl e \<Rightarrow> Inl e
           | Inr (orelse', st2) \<Rightarrow> Inr (IfStmt test body' orelse', st2)))"
| "visit_stmt (ForStmt target iter body orelse) st =
     (case visit_stmts body st of
        Inl e \<Rightarrow> Inl e
      | Inr (body', st1) \<Rightarrow>
          (case visit_stmts orelse st1 of
             Inl e \<Rightarrow> Inl e
           | Inr (orelse', st2) \<Rightarrow> Inr (ForStmt target iter body' orelse', st2)))"
| "visit_stmt (WhileStmt test body orelse) st =
     (case visit_stmts body st of
        Inl e \<Rightarrow> Inl e
      | Inr (body', st1) \<Rightarrow>
          (case visit_stmts orelse st1 of
             Inl e \<Rightarrow> Inl e
           | Inr (orelse', st2) \<Rightarrow> Inr (WhileStmt test body' orelse', st2)))"
| "visit_stmt (Assign targets v tc) st = Inr (Assign targets v tc, st)"
| "visit_stmt (Return v) st = Inr (Return v, st)"
| "visit_stmt Pass st = Inr (Pass, st)"
| "visit_stmt (OtherStmt kind es) st = Inr (OtherStmt kind es, st)"
| "visit_stmts [] st = Inr ([], st)"
| "visit_stmts (s # rest) st =
     (case visit_stmt s st of
        Inl e \<Rightarrow> Inl e
      | Inr (s', st1) \<Rightarrow>
          (case visit_stmts rest st1 of
             Inl e \<Rightarrow> Inl e
           | Inr (rest', st2) \<Rightarrow> Inr (s' # rest', st2)))"

section \<open>The driver's steps after the rewrite\<close>

text \<open>
  How Python reads an \<^verbatim>\<open>ast.arguments\<close> node (the \<^verbatim>\<open>ast\<close> documentation): the
  parameters of the signature in their order, and the default of the \<open>i\<close>-th
  positional parameter, \<^verbatim>\<open>defaults\<close> belonging to the last parameters of
  \<^verbatim>\<open>posonlyargs + args\<close>.
\<close>

definition parameters :: "arguments \<Rightarrow> arg list" where
  "parameters a =
     posonlyargs a @ args a @ (case vararg a of None \<Rightarrow> [] | Some v \<Rightarrow> [v])
       @ kwonlyargs a @ (case kwarg a of None \<Rightarrow> [] | Some k \<Rightarrow> [k])"

definition positional_default :: "arguments \<Rightarrow> nat \<Rightarrow> expr option" where
  "positional_default a i =
     (let n = length (posonlyargs a) + length (args a); d = length (defaults a)
      in if i < n \<and> n \<le> i + d then Some (defaults a ! (i + d - n)) else None)"

text \<open>
  The statements the transformer visits, in the order it visits them: each statement
  of a list, followed by the statements of its own statement lists.
\<close>

fun visited_stmt :: "stmt \<Rightarrow> stmt list"
  and visited :: "stmt list \<Rightarrow> stmt list"
where
  "visited_stmt (FunctionDef name a body decorator_list returns) =
     FunctionDef name a body decorator_list returns # visited body"
| "visited_stmt (IfStmt test body orelse) =
     IfStmt test body orelse # visited body @ visited orelse"
| "visited_stmt (ForStmt target iter body orelse) =
     ForStmt target iter body orelse # visited body @ visited orelse"
| "visited_stmt (WhileStmt test body orelse) =
     WhileStmt test body orelse # visited body @ visited orelse"
| "visited_stmt (Expr v) = [Expr v]"
| "visited_stmt (Assign targets v tc) = [Assign targets v tc]"
| "visited_stmt (Return v) = [Return v]"
| "visited_stmt Pass = [Pass]"
| "visited_stmt (OtherStmt kind es) = [OtherStmt kind es]"
| "visited [] = []"
| "visited (s # rest) = visited_stmt s @ visited rest"

text \<open>
  \<^verbatim>\<open>compile(tree, ...)\<close> is the host's. Of its checks the model has the one that the
  parameters inserted by \<^verbatim>\<open>visit_FunctionDef\<close> can trip: a function definition
  anywhere in the tree with a parameter name used twice is a \<^verbatim>\<open>SyntaxError\<close>, which
  names the first parameter that repeats an earlier one.
\<close>

fun first_duplicate :: "string list \<Rightarrow> string list \<Rightarrow> string option" where
  "first_duplicate seen [] = None"
| "first_duplicate seen (x # xs) =
     (if x \<in> set seen then Some x else first_duplicate (seen @ [x]) xs)"

fun duplicate_argument :: "stmt \<Rightarrow> string option" where
  "duplicate_argument (FunctionDef name a body decorator_list returns) =
     first_duplicate [] (map arg (parameters a))"
| "duplicate_argument s = None"

fun compile_check :: "stmt list \<Rightarrow> error option" where
  "compile_check [] = None"
| "compile_check (s # rest) =
     (case duplicate_argument s of
        Some n \<Rightarrow> Some (SyntaxError n)
      | None \<Rightarrow> compile_check rest)"

text \<open>
  \<^verbatim>\<open>exec(sampler_fn, namespace)\<close> runs the statements of the module in the namespace:
  a function definition binds its name, an assignment binds its name targets. The
  values bound, and the evaluation of default values and annotations, are the host's
  and not part of the model.
\<close>

fun bound_name :: "stmt \<Rightarrow> string list" where
  "bound_name (FunctionDef name a body decorator_list returns) = [name]"
| "bound_name (Assign targets v tc) =
     concat (map (\<lambda>t. case t of Name ident ctx \<Rightarrow> [ident] | _ \<Rightarrow> []) targets)"
| "bound_name s = []"

definition bound_names :: "stmt list \<Rightarrow> string list" where
  "bound_names body = concat (map bound_name body)"

section \<open>The compilation driver\<close>

text \<open>
  \<^verbatim>\<open>compiler.visit(tree)\<close> on the module that \<^verbatim>\<open>ast.parse\<close> returns: the transformer
  has no method for the module node, so \<^verbatim>\<open>generic_visit\<close> walks its body.
\<close>

fun visit_module :: "module \<Rightarrow> SamplerCompiler \<Rightarrow> error + (module \<times> SamplerCompiler)" where
  "visit_module (Module body) st =
     (case visit_stmts body st of
        Inl e \<Rightarrow> Inl e
      | Inr (body', st') \<Rightarrow> Inr (Module body', st'))"

text \<open>
  \<^verbatim>\<open>compile_to_sampler\<close>, from the parsed module on: a fresh \<^verbatim>\<open>SamplerCompiler\<close>
  visits the tree, the rewritten tree is compiled and executed in the namespace (given
  by the names it holds), and the function is looked up there under
  \<^verbatim>\<open>compiler.fn_name\<close>. The result is the rewritten module with the name whose
  binding the driver hands to \<^verbatim>\<open>jax.jit\<close>. An exception of the visit leaves the
  driver before \<^verbatim>\<open>compile\<close> and \<^verbatim>\<open>exec\<close>.
\<close>

definition compile_to_sampler :: "module \<Rightarrow> string list \<Rightarrow> error + (module \<times> string)" where
  "compile_to_sampler tree namespace =
     (case visit_module tree new_SamplerCompiler of
        Inl e \<Rightarrow> Inl e
      | Inr (Module body', compiler) \<Rightarrow>
          (case compile_check (visited body') of
             Some e \<Rightarrow> Inl e
           | None \<Rightarrow>
               if fn_name compiler \<in> set (bound_names body') \<union> set namespace
               then Inr (Module body', fn_name compiler)
               else Inl (KeyError (fn_name compiler))))"

section \<open>Notions the properties are stated with\<close>

text \<open>
  The trigger pattern of \<^verbatim>\<open>visit_Expr\<close>: an expression statement whose value is a
  binary operation with the operator \<^verbatim>\<open>@\<close>.
\<close>

fun is_declaration :: "stmt \<Rightarrow> bool" where
  "is_declaration (Expr (BinOp left MatMult right)) = True"
| "is_declaration s = False"






text \<open>
  The left-hand names of the declarations among the visited statements, in that order.
  A plain assignment contributes nothing.
\<close>

fun declared_name :: "stmt \<Rightarrow> string list" where
  "declared_name (Expr (BinOp (Name var_name ctx) MatMult right)) = [var_name]"
| "declared_name s = []"

definition declared_names :: "stmt list \<Rightarrow> string list" where
  "declared_names body = concat (map declared_name (visited body))"


fun is_FunctionDef :: "stmt \<Rightarrow> bool" where
  "is_FunctionDef (FunctionDef name a body decorator_list returns) = True"
| "is_FunctionDef s = False"

section \<open>Properties\<close>

subsection \<open>The dependency classifier\<close>

lemma is_leaf_node_append:
  "is_leaf_node (xs @ ys) mvs \<longleftrightarrow> is_leaf_node xs mvs \<and> is_leaf_node ys mvs"
  by (induction xs) (auto split: expr.splits)

lemma is_leaf_node_iff:
  "is_leaf_node params mvs \<longleftrightarrow>
     \<not> (\<exists>p \<in> set params. \<exists>ident ctx. p = Name ident ctx \<and> ident \<in> set mvs)"
  by (induction params) (auto split: expr.splits)

text \<open>
  C1: \<open>is_leaf_node\<close> returns true exactly when no parameter is a name node whose
  identifier is in the list of declared variables it is given. A parameter that is not
  a name node (a constant, a call, any other expression) has no influence on the
  answer: with it or without it the classification is the same.
\<close>

theorem is_leaf_node_iff_no_declared_name:
  "(is_leaf_node params mvs \<longleftrightarrow>
     \<not> (\<exists>p \<in> set params. \<exists>ident ctx. p = Name ident ctx \<and> ident \<in> set mvs)) \<and>
   (\<not> is_Name a \<longrightarrow> is_leaf_node (xs @ a # ys) mvs = is_leaf_node (xs @ ys) mvs)"
proof
  show "is_leaf_node params mvs \<longleftrightarrow>
     \<not> (\<exists>p \<in> set params. \<exists>ident ctx. p = Name ident ctx \<and> ident \<in> set mvs)"
    by (rule is_leaf_node_iff)
next
  show "\<not> is_Name a \<longrightarrow> is_leaf_node (xs @ a # ys) mvs = is_leaf_node (xs @ ys) mvs"
    by (cases a) (simp_all add: is_leaf_node_append)
qed

theorem is_leaf_node_iff_no_declared_name_witness:
  "is_leaf_node [Constant (IntValue 0), Name ''x'' Load] [''x''] = False \<and>
   \<not> is_Name (Call (Name ''f'' Load) [Name ''x'' Load] []) \<and>
   is_leaf_node ([Name ''y'' Load] @ Call (Name ''f'' Load) [Name ''x'' Load] []
       # [Constant (IntValue 1)]) [''x'']
     = is_leaf_node ([Name ''y'' Load] @ [Constant (IntValue 1)]) [''x'']"
  using is_leaf_node_iff_no_declared_name
    [of "[Constant (IntValue 0), Name ''x'' Load]" "[''x'']"
      "Call (Name ''f'' Load) [Name ''x'' Load] []" "[Name ''y'' Load]"
      "[Constant (IntValue 1)]"]
  by simp

subsection \<open>How the rewriter steps through a tree\<close>

lemma visit_Expr_declaration:
  "visit_Expr (BinOp (Name x c) MatMult (Call f as ks)) st =
     (case read_object_name f of
        None \<Rightarrow> Inl (ObjectNameNotResolved f)
      | Some d \<Rightarrow>
          (case check_arguments x as of
             Some e \<Rightarrow> Inl e
           | None \<Rightarrow> Inr (new_sample_expression x d as (is_leaf_node as (model_vars st @ [x])),
                        st\<lparr>model_vars := model_vars st @ [x]\<rparr>)))"
  by (simp add: visit_Expr_def Let_def split: option.splits)

lemma visit_Expr_success:
  assumes "visit_Expr (BinOp (Name x c) MatMult (Call f as ks)) st = Inr (s, st')"
  shows "\<exists>d. read_object_name f = Some d \<and> check_arguments x as = None \<and>
           s = new_sample_expression x d as (is_leaf_node as (model_vars st @ [x])) \<and>
           st' = st\<lparr>model_vars := model_vars st @ [x]\<rparr>"
  using assms by (auto simp: visit_Expr_declaration split: option.splits)

lemma visit_Expr_other:
  "\<not> is_declaration (Expr v) \<Longrightarrow> visit_Expr v st = Inr (Expr v, st)"
  by (cases "Expr v" rule: is_declaration.cases) (auto simp: visit_Expr_def split: expr.splits)

lemma visit_Expr_state:
  assumes "visit_Expr v st = Inr (s, st')"
  shows "model_vars st' = model_vars st @ declared_name (Expr v) \<and> fn_name st' = fn_name st"
proof (cases "is_declaration (Expr v)")
  case False
  then show ?thesis using assms
    by (cases "Expr v" rule: declared_name.cases) (auto simp: visit_Expr_other)
next
  case True
  then obtain l r where v: "v = BinOp l MatMult r"
    by (cases "Expr v" rule: is_declaration.cases) auto
  show ?thesis using assms unfolding v
    by (auto simp: visit_Expr_def Let_def split: expr.splits option.splits)
qed

lemma visit_FunctionDef_success:
  assumes "visit_stmt (FunctionDef name a body decs ret) st = Inr (s, st')"
  shows "\<exists>body'. visit_stmts body (st\<lparr>fn_name := name @ ''_sampler''\<rparr>) = Inr (body', st') \<and>
           s = FunctionDef (name @ ''_sampler'')
                 (a\<lparr>args := Arg ''rng_key'' None None # args a @ [Arg ''sample_shape'' None None],
                    defaults := defaults a @ [Tuple [] Load]\<rparr>) body' [] ret"
  using assms by (auto simp: Let_def split: sum.splits)

lemma visit_IfStmt_success:
  assumes "visit_stmt (IfStmt test body orelse) st = Inr (s, st')"
  shows "\<exists>body' st1 orelse'. visit_stmts body st = Inr (body', st1) \<and>
           visit_stmts orelse st1 = Inr (orelse', st') \<and> s = IfStmt test body' orelse'"
  using assms by (auto split: sum.splits)

lemma visit_ForStmt_success:
  assumes "visit_stmt (ForStmt target iter body orelse) st = Inr (s, st')"
  shows "\<exists>body' st1 orelse'. visit_stmts body st = Inr (body', st1) \<and>
           visit_stmts orelse st1 = Inr (orelse', st') \<and> s = ForStmt target iter body' orelse'"
  using assms by (auto split: sum.splits)

lemma visit_WhileStmt_success:
  assumes "visit_stmt (WhileStmt test body orelse) st = Inr (s, st')"
  shows "\<exists>body' st1 orelse'. visit_stmts body st = Inr (body', st1) \<and>
           visit_stmts orelse st1 = Inr (orelse', st') \<and> s = WhileStmt test body' orelse'"
  using assms by (auto split: sum.splits)

lemma visit_stmts_Cons_success:
  assumes "visit_stmts (s # rest) st = Inr (out, st')"
  shows "\<exists>s' st1 rest'. visit_stmt s st = Inr (s', st1) \<and>
           visit_stmts rest st1 = Inr (rest', st') \<and> out = s' # rest'"
  using assms by (auto split: sum.splits)

lemma visit_model_vars:
  "visit_stmt s st = Inr (s', st') \<Longrightarrow>
      model_vars st' = model_vars st @ concat (map declared_name (visited_stmt s))"
  "visit_stmts body st = Inr (body', st'') \<Longrightarrow>
      model_vars st'' = model_vars st @ concat (map declared_name (visited body))"
proof (induction s st and body st arbitrary: s' st' and body' st''
    rule: visit_stmt_visit_stmts.induct)
  case (1 name a body decorator_list returns st)
  from visit_FunctionDef_success [OF "1.prems"] obtain body' where
    b: "visit_stmts body (st\<lparr>fn_name := name @ ''_sampler''\<rparr>) = Inr (body', st')" by blast
  have "model_vars st' = model_vars (st\<lparr>fn_name := name @ ''_sampler''\<rparr>) @ concat (map declared_name (visited body))"
    by (rule "1.IH" [OF refl refl refl refl refl b])
  then show ?case by simp
next
  case (2 v st)
  from "2.prems" have "visit_Expr v st = Inr (s', st')" by simp
  from visit_Expr_state [OF this] show ?case by simp
next
  case (3 test body orelse st)
  from visit_IfStmt_success [OF "3.prems"] obtain body' st1 orelse' where
    b: "visit_stmts body st = Inr (body', st1)" and o: "visit_stmts orelse st1 = Inr (orelse', st')"
    by blast
  from "3.IH"(1) [OF b] "3.IH"(2) [OF b refl o] show ?case by simp
next
  case (4 target iter body orelse st)
  from visit_ForStmt_success [OF "4.prems"] obtain body' st1 orelse' where
    b: "visit_stmts body st = Inr (body', st1)" and o: "visit_stmts orelse st1 = Inr (orelse', st')"
    by blast
  from "4.IH"(1) [OF b] "4.IH"(2) [OF b refl o] show ?case by simp
next
  case (5 test body orelse st)
  from visit_WhileStmt_success [OF "5.prems"] obtain body' st1 orelse' where
    b: "visit_stmts body st = Inr (body', st1)" and o: "visit_stmts orelse st1 = Inr (orelse', st')"
    by blast
  from "5.IH"(1) [OF b] "5.IH"(2) [OF b refl o] show ?case by simp
next
  case (11 s rest st)
  from visit_stmts_Cons_success [OF "11.prems"] obtain s' st1 rest' where
    b: "visit_stmt s st = Inr (s', st1)" and o: "visit_stmts rest st1 = Inr (rest', st'')"
    by blast
  from "11.IH"(1) [OF b] "11.IH"(2) [OF b refl o] show ?case by simp
qed auto

lemma visit_fn_name:
  "visit_stmt s st = Inr (s', st') \<Longrightarrow> list_all (\<lambda>s. \<not> is_FunctionDef s) (visited_stmt s) \<Longrightarrow>
      fn_name st' = fn_name st"
  "visit_stmts body st = Inr (body', st'') \<Longrightarrow> list_all (\<lambda>s. \<not> is_FunctionDef s) (visited body) \<Longrightarrow>
      fn_name st'' = fn_name st"
proof (induction s st and body st arbitrary: s' st' and body' st''
    rule: visit_stmt_visit_stmts.induct)
  case (1 name a body decorator_list returns st)
  from "1.prems"(2) show ?case by simp
next
  case (2 v st)
  from "2.prems" have "visit_Expr v st = Inr (s', st')" by simp
  from visit_Expr_state [OF this] show ?case by simp
next
  case (3 test body orelse st)
  from visit_IfStmt_success [OF "3.prems"(1)] obtain body' st1 orelse' where
    b: "visit_stmts body st = Inr (body', st1)" and o: "visit_stmts orelse st1 = Inr (orelse', st')"
    by blast
  from "3.prems"(2) have n: "list_all (\<lambda>s. \<not> is_FunctionDef s) (visited body)"
    "list_all (\<lambda>s. \<not> is_FunctionDef s) (visited orelse)" by simp_all
  from "3.IH"(1) [OF b n(1)] "3.IH"(2) [OF b refl o n(2)] show ?case by simp
next
  case (4 target iter body orelse st)
  from visit_ForStmt_success [OF "4.prems"(1)] obtain body' st1 orelse' where
    b: "visit_stmts body st = Inr (body', st1)" and o: "visit_stmts orelse st1 = Inr (orelse', st')"
    by blast
  from "4.prems"(2) have n: "list_all (\<lambda>s. \<not> is_FunctionDef s) (visited body)"
    "list_all (\<lambda>s. \<not> is_FunctionDef s) (visited orelse)" by simp_all
  from "4.IH"(1) [OF b n(1)] "4.IH"(2) [OF b refl o n(2)] show ?case by simp
next
  case (5 test body orelse st)
  from visit_WhileStmt_success [OF "5.prems"(1)] obtain body' st1 orelse' where
    b: "visit_stmts body st = Inr (body', st1)" and o: "visit_stmts orelse st1 = Inr (orelse', st')"
    by blast
  from "5.prems"(2) have n: "list_all (\<lambda>s. \<not> is_FunctionDef s) (visited body)"
    "list_all (\<lambda>s. \<not> is_FunctionDef s) (visited orelse)" by simp_all
  from "5.IH"(1) [OF b n(1)] "5.IH"(2) [OF b refl o n(2)] show ?case by simp
next
  case (11 s rest st)
  from visit_stmts_Cons_success [OF "11.prems"(1)] obtain s' st1 rest' where
    b: "visit_stmt s st = Inr (s', st1)" and o: "visit_stmts rest st1 = Inr (rest', st'')"
    by blast
  from "11.prems"(2) have n: "list_all (\<lambda>s. \<not> is_FunctionDef s) (visited_stmt s)"
    "list_all (\<lambda>s. \<not> is_FunctionDef s) (visited rest)" by simp_all
  from "11.IH"(1) [OF b n(1)] "11.IH"(2) [OF b refl o n(2)] show ?case by simp
qed auto

lemma visit_length:
  "visit_stmts body st = Inr (body', st') \<Longrightarrow> length body' = length body"
proof (induction body arbitrary: st body' st')
  case Nil
  then show ?case by auto
next
  case (Cons s rest)
  from visit_stmts_Cons_success [OF Cons.prems] obtain s' st1 rest' where
    "visit_stmts rest st1 = Inr (rest', st')" "body' = s' # rest'" by blast
  with Cons.IH show ?case by simp
qed

lemma visit_stmts_append:
  "visit_stmts (xs @ ys) st =
     (case visit_stmts xs st of
        Inl e \<Rightarrow> Inl e
      | Inr (xs', st1) \<Rightarrow>
          (case visit_stmts ys st1 of
             Inl e \<Rightarrow> Inl e
           | Inr (ys', st2) \<Rightarrow> Inr (xs' @ ys', st2)))"
  by (induction xs arbitrary: st) (auto split: sum.splits)

subsection \<open>The sample-statement synthesizer\<close>

text \<open>
  C4: for a variable name, a distribution name, argument expressions and a leaf flag,
  \<open>new_sample_expression\<close> builds the assignment of
  \<^verbatim>\<open>distribution(arguments).sample(...)\<close> to the variable: the distribution is called
  with exactly the given arguments, and \<^verbatim>\<open>sample\<close> is called with \<^verbatim>\<open>rng_key\<close> first and
  with \<^verbatim>\<open>sample_shape\<close> after it exactly when the flag is true. A declaration that
  \<open>visit_Expr\<close> accepts is replaced by this statement, built from the declaration's own
  name, callee and arguments and the classifier's answer.
\<close>

theorem new_sample_expression_shape:
  "new_sample_expression name distribution arguments leaf =
     Assign [Name name Store]
       (Call (Attribute (Call (Name distribution Load) arguments []) ''sample'' Load)
          (if leaf then [Name ''rng_key'' Load, Name ''sample_shape'' Load]
           else [Name ''rng_key'' Load]) [])
       None \<and>
   (visit_Expr (BinOp (Name name c) MatMult (Call f arguments ks)) st = Inr (s, st') \<longrightarrow>
      (\<exists>d. read_object_name f = Some d \<and>
         s = new_sample_expression name d arguments (is_leaf_node arguments (model_vars st'))))"
  by (auto simp: new_sample_expression_def dest!: visit_Expr_success)

theorem new_sample_expression_shape_witness:
  "visit_Expr (BinOp (Name ''y'' Load) MatMult
       (Call (Attribute (Name ''dist'' Load) ''Normal'' Load)
          [Name ''x'' Load, Constant (IntValue 1)] []))
     \<lparr>model_vars = [''x''], fn_name = ''m_sampler''\<rparr>
   = Inr (Assign [Name ''y'' Store]
       (Call (Attribute (Call (Name ''dist.Normal'' Load)
          [Name ''x'' Load, Constant (IntValue 1)] []) ''sample'' Load)
          [Name ''rng_key'' Load] []) None,
       \<lparr>model_vars = [''x'', ''y''], fn_name = ''m_sampler''\<rparr>) \<and>
   (\<exists>d. read_object_name (Attribute (Name ''dist'' Load) ''Normal'' Load) = Some d \<and>
      Assign [Name ''y'' Store]
       (Call (Attribute (Call (Name ''dist.Normal'' Load)
          [Name ''x'' Load, Constant (IntValue 1)] []) ''sample'' Load)
          [Name ''rng_key'' Load] []) None
      = new_sample_expression ''y'' d [Name ''x'' Load, Constant (IntValue 1)]
          (is_leaf_node [Name ''x'' Load, Constant (IntValue 1)]
             (model_vars \<lparr>model_vars = [''x'', ''y''], fn_name = ''m_sampler''\<rparr>)))"
proof -
  have e: "visit_Expr (BinOp (Name ''y'' Load) MatMult
       (Call (Attribute (Name ''dist'' Load) ''Normal'' Load)
          [Name ''x'' Load, Constant (IntValue 1)] []))
     \<lparr>model_vars = [''x''], fn_name = ''m_sampler''\<rparr>
   = Inr (Assign [Name ''y'' Store]
       (Call (Attribute (Call (Name ''dist.Normal'' Load)
          [Name ''x'' Load, Constant (IntValue 1)] []) ''sample'' Load)
          [Name ''rng_key'' Load] []) None,
       \<lparr>model_vars = [''x'', ''y''], fn_name = ''m_sampler''\<rparr>)"
    by (simp add: visit_Expr_def new_sample_expression_def)
  from new_sample_expression_shape [THEN conjunct2, rule_format, OF e] e
  show ?thesis by blast
qed

subsection \<open>Keyword arguments of the distribution call\<close>

text \<open>
  C9: the keyword arguments of the call on the right of a declaration are never looked
  at: \<open>visit_Expr\<close> gives the same result, error or statement, as for the call without
  them, and the statement it builds calls the distribution with the positional
  arguments and an empty keyword list.
\<close>

theorem keywords_never_checked_and_dropped:
  "visit_Expr (BinOp left MatMult (Call f arguments keywords)) st
     = visit_Expr (BinOp left MatMult (Call f arguments [])) st \<and>
   (visit_Expr (BinOp left MatMult (Call f arguments keywords)) st = Inr (s, st') \<longrightarrow>
      (\<exists>name d draw_args. s = Assign [Name name Store]
         (Call (Attribute (Call (Name d Load) arguments []) ''sample'' Load) draw_args [])
         None))"
  by (cases left)
    (auto simp: visit_Expr_def new_sample_expression_def Let_def split: option.splits)

theorem keywords_never_checked_and_dropped_witness:
  "visit_Expr (BinOp (Name ''x'' Load) MatMult
       (Call (Name ''Normal'' Load) [Constant (IntValue 0)]
          [(Some ''scale'', Call (Name ''f'' Load) [Constant (IntValue 1)] [])]))
     new_SamplerCompiler
   = Inr (Assign [Name ''x'' Store]
       (Call (Attribute (Call (Name ''Normal'' Load) [Constant (IntValue 0)] [])
          ''sample'' Load) [Name ''rng_key'' Load, Name ''sample_shape'' Load] []) None,
       \<lparr>model_vars = [''x''], fn_name = ''''\<rparr>) \<and>
   visit_Expr (BinOp (Name ''x'' Load) MatMult
       (Call (Name ''Normal'' Load) [Constant (IntValue 0)]
          [(Some ''scale'', Call (Name ''f'' Load) [Constant (IntValue 1)] [])]))
     new_SamplerCompiler
   = visit_Expr (BinOp (Name ''x'' Load) MatMult
       (Call (Name ''Normal'' Load) [Constant (IntValue 0)] [])) new_SamplerCompiler"
proof -
  have e: "visit_Expr (BinOp (Name ''x'' Load) MatMult
       (Call (Name ''Normal'' Load) [Constant (IntValue 0)]
          [(Some ''scale'', Call (Name ''f'' Load) [Constant (IntValue 1)] [])]))
     new_SamplerCompiler
   = Inr (Assign [Name ''x'' Store]
       (Call (Attribute (Call (Name ''Normal'' Load) [Constant (IntValue 0)] [])
          ''sample'' Load) [Name ''rng_key'' Load, Name ''sample_shape'' Load] []) None,
       \<lparr>model_vars = [''x''], fn_name = ''''\<rparr>)"
    by (simp add: visit_Expr_def new_sample_expression_def new_SamplerCompiler_def)
  have k: "visit_Expr (BinOp (Name ''x'' Load) MatMult
       (Call (Name ''Normal'' Load) [Constant (IntValue 0)]
          [(Some ''scale'', Call (Name ''f'' Load) [Constant (IntValue 1)] [])]))
     new_SamplerCompiler
   = visit_Expr (BinOp (Name ''x'' Load) MatMult
       (Call (Name ''Normal'' Load) [Constant (IntValue 0)] [])) new_SamplerCompiler"
    by (rule keywords_never_checked_and_dropped [THEN conjunct1])
  from e k show ?thesis by simp
qed

subsection \<open>The registry at the time of the classification\<close>

text \<open>
  C2: in \<open>visit_Expr\<close> the name on the left is appended to \<open>model_vars\<close> before
  \<open>is_leaf_node\<close> is called, so the classification sees the declaration's own name.
  For the model \<^verbatim>\<open>def m(x): x @ Normal(x, 1)\<close> the compiler builds
  \<^verbatim>\<open>x = Normal(x, 1).sample(rng_key)\<close>, without \<^verbatim>\<open>sample_shape\<close>, although the
  classifier answers true on the registry as it was before the declaration.
\<close>

theorem self_reference_classified_non_leaf:
  "visit_module (Module [FunctionDef ''m''
       \<lparr>posonlyargs = [],
        args = [Arg ''x'' None None],
        vararg = None, kwonlyargs = [], kw_defaults = [],
        kwarg = None, defaults = []\<rparr>
       [Expr (BinOp (Name ''x'' Load) MatMult
          (Call (Name ''Normal'' Load) [Name ''x'' Load, Constant (IntValue 1)] []))]
       [] None]) new_SamplerCompiler
   = Inr (Module [FunctionDef ''m_sampler''
       \<lparr>posonlyargs = [],
        args = [Arg ''rng_key'' None None, Arg ''x'' None None, Arg ''sample_shape'' None None],
        vararg = None, kwonlyargs = [], kw_defaults = [],
        kwarg = None, defaults = [Tuple [] Load]\<rparr>
       [Assign [Name ''x'' Store]
          (Call (Attribute (Call (Name ''Normal'' Load) [Name ''x'' Load, Constant (IntValue 1)] [])
             ''sample'' Load) [Name ''rng_key'' Load] []) None]
       [] None],
       \<lparr>model_vars = [''x''], fn_name = ''m_sampler''\<rparr>) \<and>
   is_leaf_node [Name ''x'' Load, Constant (IntValue 1)] (model_vars new_SamplerCompiler)"
  by (simp add: visit_Expr_def new_sample_expression_def new_SamplerCompiler_def Let_def)

subsection \<open>The signature of the generated function\<close>

lemma positional_default_sample_shape:
  "positional_default
     (a\<lparr>args := Arg ''rng_key'' None None # args a @ [Arg ''sample_shape'' None None],
        defaults := defaults a @ [Tuple [] Load]\<rparr>)
     (length (posonlyargs a) + length (args a) + 1) = Some (Tuple [] Load)"
  by (simp add: positional_default_def Let_def nth_append)

lemma positional_default_rng_key:
  "length (defaults a) \<le> length (args a) \<Longrightarrow>
   positional_default
     (a\<lparr>args := Arg ''rng_key'' None None # args a @ [Arg ''sample_shape'' None None],
        defaults := defaults a @ [Tuple [] Load]\<rparr>)
     (length (posonlyargs a)) = None"
  by (simp add: positional_default_def Let_def)

text \<open>
  What \<^verbatim>\<open>visit_FunctionDef\<close> does to a signature: it edits the regular positional
  parameters \<^verbatim>\<open>args.args\<close> and the list \<^verbatim>\<open>args.defaults\<close> only. \<^verbatim>\<open>rng_key\<close> goes in
  front of the regular positional parameters, \<^verbatim>\<open>sample_shape\<close> behind them with the
  empty tuple as its default, and the other parameter groups stay as they are. Where
  there are no positional-only parameters \<^verbatim>\<open>rng_key\<close> is the first parameter and has
  no default, and where there are no \<^verbatim>\<open>*args\<close>, keyword-only parameters and
  \<^verbatim>\<open>**kwargs\<close> \<^verbatim>\<open>sample_shape\<close> is the last.
\<close>

lemma visit_FunctionDef_signature:
  assumes "visit_stmt (FunctionDef name a body decs ret) st
             = Inr (FunctionDef name' a' body' decs' ret', st')"
  shows "parameters a' =
           posonlyargs a @ [Arg ''rng_key'' None None] @ args a
             @ [Arg ''sample_shape'' None None]
             @ (case vararg a of None \<Rightarrow> [] | Some v \<Rightarrow> [v])
             @ kwonlyargs a @ (case kwarg a of None \<Rightarrow> [] | Some k \<Rightarrow> [k]) \<and>
         length (parameters a') = length (parameters a) + 2 \<and>
         defaults a' = defaults a @ [Tuple [] Load] \<and>
         kw_defaults a' = kw_defaults a \<and>
         positional_default a' (length (posonlyargs a) + length (args a) + 1)
           = Some (Tuple [] Load) \<and>
         (length (defaults a) \<le> length (args a) \<longrightarrow>
            positional_default a' (length (posonlyargs a)) = None) \<and>
         (\<forall>j < length (args a).
            positional_default a' (length (posonlyargs a) + j + 1)
              = positional_default a (length (posonlyargs a) + j)) \<and>
         (posonlyargs a = [] \<longrightarrow> hd (parameters a') = Arg ''rng_key'' None None) \<and>
         (vararg a = None \<and> kwonlyargs a = [] \<and> kwarg a = None \<longrightarrow>
            last (parameters a') = Arg ''sample_shape'' None None)"
proof -
  from visit_FunctionDef_success [OF assms]
  have a': "a' = a\<lparr>args := Arg ''rng_key'' None None # args a @ [Arg ''sample_shape'' None None],
                    defaults := defaults a @ [Tuple [] Load]\<rparr>"
    by auto
  have p: "parameters a' =
           posonlyargs a @ [Arg ''rng_key'' None None] @ args a
             @ [Arg ''sample_shape'' None None]
             @ (case vararg a of None \<Rightarrow> [] | Some v \<Rightarrow> [v])
             @ kwonlyargs a @ (case kwarg a of None \<Rightarrow> [] | Some k \<Rightarrow> [k])"
    by (simp add: a' parameters_def)
  have l: "length (parameters a') = length (parameters a) + 2"
    by (simp add: a' parameters_def)
  have d: "defaults a' = defaults a @ [Tuple [] Load]" "kw_defaults a' = kw_defaults a"
    by (simp_all add: a')
  have s: "positional_default a' (length (posonlyargs a) + length (args a) + 1)
           = Some (Tuple [] Load)"
    unfolding a' by (rule positional_default_sample_shape)
  have r: "length (defaults a) \<le> length (args a) \<longrightarrow>
            positional_default a' (length (posonlyargs a)) = None"
    unfolding a' by (simp add: positional_default_rng_key)
  have k: "\<forall>j < length (args a).
            positional_default a' (length (posonlyargs a) + j + 1)
              = positional_default a (length (posonlyargs a) + j)"
    unfolding a' by (auto simp: positional_default_def Let_def nth_append)
  have h: "posonlyargs a = [] \<longrightarrow> hd (parameters a') = Arg ''rng_key'' None None"
    by (simp add: p)
  have e: "vararg a = None \<and> kwonlyargs a = [] \<and> kwarg a = None \<longrightarrow>
            last (parameters a') = Arg ''sample_shape'' None None"
    by (simp add: p)
  show ?thesis by (intro conjI p l d s r k h e)
qed

text \<open>
  C5: the signature \<^verbatim>\<open>model_sampler(rng_key, *args, sample_shape=())\<close> of the driver's
  docstring is not what the rewriter produces for every model. For
  \<^verbatim>\<open>def m(a, /, b, *, k): pass\<close> the generated signature is
  \<^verbatim>\<open>(a, /, rng_key, b, sample_shape=(), *, k)\<close>: \<^verbatim>\<open>rng_key\<close> is not at position 0
  and \<^verbatim>\<open>sample_shape\<close> is not at the end. For \<^verbatim>\<open>def m(a=1, /, b=2): pass\<close> the three
  defaults \<^verbatim>\<open>1, 2, ()\<close> now belong to the last three positional parameters, so
  \<^verbatim>\<open>rng_key\<close> has the default \<^verbatim>\<open>1\<close> and \<open>a\<close> has lost its default.
\<close>

theorem rng_key_not_first_sample_shape_not_last:
  "visit_stmt (FunctionDef ''m''
       \<lparr>posonlyargs = [Arg ''a'' None None],
        args = [Arg ''b'' None None],
        vararg = None, kwonlyargs = [Arg ''k'' None None], kw_defaults = [None],
        kwarg = None, defaults = []\<rparr> [Pass] [] None)
     new_SamplerCompiler
   = Inr (FunctionDef ''m_sampler''
       \<lparr>posonlyargs = [Arg ''a'' None None],
        args = [Arg ''rng_key'' None None, Arg ''b'' None None, Arg ''sample_shape'' None None],
        vararg = None, kwonlyargs = [Arg ''k'' None None], kw_defaults = [None],
        kwarg = None, defaults = [Tuple [] Load]\<rparr> [Pass] [] None,
       \<lparr>model_vars = [], fn_name = ''m_sampler''\<rparr>) \<and>
   parameters
       \<lparr>posonlyargs = [Arg ''a'' None None],
        args = [Arg ''rng_key'' None None, Arg ''b'' None None, Arg ''sample_shape'' None None],
        vararg = None, kwonlyargs = [Arg ''k'' None None], kw_defaults = [None],
        kwarg = None, defaults = [Tuple [] Load]\<rparr>
     = [Arg ''a'' None None, Arg ''rng_key'' None None, Arg ''b'' None None,
        Arg ''sample_shape'' None None, Arg ''k'' None None] \<and>
   parameters
       \<lparr>posonlyargs = [Arg ''a'' None None],
        args = [Arg ''rng_key'' None None, Arg ''b'' None None, Arg ''sample_shape'' None None],
        vararg = None, kwonlyargs = [Arg ''k'' None None], kw_defaults = [None],
        kwarg = None, defaults = [Tuple [] Load]\<rparr> ! 0 \<noteq> Arg ''rng_key'' None None \<and>
   last (parameters
       \<lparr>posonlyargs = [Arg ''a'' None None],
        args = [Arg ''rng_key'' None None, Arg ''b'' None None, Arg ''sample_shape'' None None],
        vararg = None, kwonlyargs = [Arg ''k'' None None], kw_defaults = [None],
        kwarg = None, defaults = [Tuple [] Load]\<rparr>) \<noteq> Arg ''sample_shape'' None None \<and>
   visit_stmt (FunctionDef ''m''
       \<lparr>posonlyargs = [Arg ''a'' None None],
        args = [Arg ''b'' None None],
        vararg = None, kwonlyargs = [], kw_defaults = [],
        kwarg = None, defaults = [Constant (IntValue 1), Constant (IntValue 2)]\<rparr> [Pass] [] None)
     new_SamplerCompiler
   = Inr (FunctionDef ''m_sampler''
       \<lparr>posonlyargs = [Arg ''a'' None None],
        args = [Arg ''rng_key'' None None, Arg ''b'' None None, Arg ''sample_shape'' None None],
        vararg = None, kwonlyargs = [], kw_defaults = [],
        kwarg = None, defaults = [Constant (IntValue 1), Constant (IntValue 2), Tuple [] Load]\<rparr> [Pass] [] None,
       \<lparr>model_vars = [], fn_name = ''m_sampler''\<rparr>) \<and>
   positional_default
       \<lparr>posonlyargs = [Arg ''a'' None None],
        args = [Arg ''rng_key'' None None, Arg ''b'' None None, Arg ''sample_shape'' None None],
        vararg = None, kwonlyargs = [], kw_defaults = [],
        kwarg = None, defaults = [Constant (IntValue 1), Constant (IntValue 2), Tuple [] Load]\<rparr> 0 = None \<and>
   positional_default
       \<lparr>posonlyargs = [Arg ''a'' None None],
        args = [Arg ''rng_key'' None None, Arg ''b'' None None, Arg ''sample_shape'' None None],
        vararg = None, kwonlyargs = [], kw_defaults = [],
        kwarg = None, defaults = [Constant (IntValue 1), Constant (IntValue 2), Tuple [] Load]\<rparr> 1 = Some (Constant (IntValue 1))"
  by (simp add: new_SamplerCompiler_def Let_def parameters_def positional_default_def)

subsection \<open>Decorators, the new name and the name the driver looks up\<close>

text \<open>
  A function definition that the rewriter processes comes out with an empty decorator
  list and with its name followed by \<^verbatim>\<open>_sampler\<close>. The name is stored in \<^verbatim>\<open>fn_name\<close>
  before the body is walked, so it is still there afterwards when the body holds no
  further function definition.
\<close>

lemma visit_FunctionDef_renamed:
  assumes "visit_stmt (FunctionDef name a body decs ret) st = Inr (s, st')"
  shows "(\<exists>a' body'. s = FunctionDef (name @ ''_sampler'') a' body' [] ret) \<and>
         (list_all (\<lambda>s. \<not> is_FunctionDef s) (visited body) \<longrightarrow>
            fn_name st' = name @ ''_sampler'')"
proof -
  from visit_FunctionDef_success [OF assms] obtain body' where
    b: "visit_stmts body (st\<lparr>fn_name := name @ ''_sampler''\<rparr>) = Inr (body', st')"
    and s: "\<exists>a' body'. s = FunctionDef (name @ ''_sampler'') a' body' [] ret"
    by blast
  have "fn_name st' = name @ ''_sampler''"
    if "list_all (\<lambda>s. \<not> is_FunctionDef s) (visited body)"
    using visit_fn_name(2) [OF b that] by simp
  with s show ?thesis by blast
qed

text \<open>
  C7: the name the compiler holds after the visit is the name of the function
  definition visited last, not the name of the generated function: a function defined
  inside the model overwrites it. For a model \<^verbatim>\<open>m\<close>, decorated with \<^verbatim>\<open>@model\<close>,
  whose body defines a function \<^verbatim>\<open>inner\<close> and then declares \<^verbatim>\<open>x @ Normal(0, 1)\<close>, the
  generated function is \<^verbatim>\<open>m_sampler\<close>, without decorators, and the recorded name is
  \<^verbatim>\<open>inner_sampler\<close>.
\<close>

theorem nested_definition_overwrites_recorded_name:
  "visit_module (Module [FunctionDef ''m''
       \<lparr>posonlyargs = [],
        args = [],
        vararg = None, kwonlyargs = [], kw_defaults = [],
        kwarg = None, defaults = []\<rparr>
       [FunctionDef ''inner'' \<lparr>posonlyargs = [], args = [], vararg = None, kwonlyargs = [], kw_defaults = [], kwarg = None, defaults = []\<rparr>
          [Return (Some (Constant (IntValue 1)))] [] None,
        Expr (BinOp (Name ''x'' Load) MatMult
          (Call (Name ''Normal'' Load) [Constant (IntValue 0), Constant (IntValue 1)] []))]
       [Name ''model'' Load] None]) new_SamplerCompiler
   = Inr (Module [FunctionDef ''m_sampler''
       \<lparr>posonlyargs = [],
        args = [Arg ''rng_key'' None None, Arg ''sample_shape'' None None],
        vararg = None, kwonlyargs = [], kw_defaults = [],
        kwarg = None, defaults = [Tuple [] Load]\<rparr>
       [FunctionDef ''inner_sampler'' \<lparr>posonlyargs = [], args = [Arg ''rng_key'' None None, Arg ''sample_shape'' None None], vararg = None, kwonlyargs = [], kw_defaults = [], kwarg = None, defaults = [Tuple [] Load]\<rparr>
          [Return (Some (Constant (IntValue 1)))] [] None,
        Assign [Name ''x'' Store]
          (Call (Attribute (Call (Name ''Normal'' Load) [Constant (IntValue 0), Constant (IntValue 1)] [])
             ''sample'' Load) [Name ''rng_key'' Load, Name ''sample_shape'' Load] []) None]
       [] None],
       \<lparr>model_vars = [''x''], fn_name = ''inner_sampler''\<rparr>) \<and>
   fn_name \<lparr>model_vars = [''x''], fn_name = ''inner_sampler''\<rparr> \<noteq> ''m_sampler''"
  by (simp add: visit_Expr_def new_sample_expression_def new_SamplerCompiler_def Let_def)

text \<open>
  The driver then looks up \<^verbatim>\<open>inner_sampler\<close>, which the execution of the module does
  not bind: \<^verbatim>\<open>namespace[compiler.fn_name]\<close> raises. A model with a parameter named
  \<^verbatim>\<open>rng_key\<close> does not get that far: the generated definition has the name twice and
  \<^verbatim>\<open>compile\<close> refuses it.
\<close>

lemma compile_to_sampler_nested_definition:
  "compile_to_sampler (Module [FunctionDef ''m''
       \<lparr>posonlyargs = [],
        args = [],
        vararg = None, kwonlyargs = [], kw_defaults = [],
        kwarg = None, defaults = []\<rparr>
       [FunctionDef ''inner'' \<lparr>posonlyargs = [], args = [], vararg = None, kwonlyargs = [], kw_defaults = [], kwarg = None, defaults = []\<rparr>
          [Return (Some (Constant (IntValue 1)))] [] None,
        Expr (BinOp (Name ''x'' Load) MatMult
          (Call (Name ''Normal'' Load) [Constant (IntValue 0), Constant (IntValue 1)] []))]
       [Name ''model'' Load] None]) [''Normal'', ''model'', ''m'']
   = Inl (KeyError ''inner_sampler'')"
  by (simp add: compile_to_sampler_def bound_names_def parameters_def visit_Expr_def new_sample_expression_def new_SamplerCompiler_def Let_def)

lemma compile_to_sampler_duplicate_parameter:
  "compile_to_sampler (Module [FunctionDef ''m''
       \<lparr>posonlyargs = [],
        args = [Arg ''rng_key'' None None],
        vararg = None, kwonlyargs = [], kw_defaults = [],
        kwarg = None, defaults = []\<rparr>
       [Pass]
       [Name ''model'' Load] None]) [''model'', ''m'']
   = Inl (SyntaxError ''rng_key'')"
  by (simp add: compile_to_sampler_def bound_names_def parameters_def visit_Expr_def new_sample_expression_def new_SamplerCompiler_def Let_def)

lemma compile_to_sampler_visit_error:
  "visit_module tree new_SamplerCompiler = Inl e \<Longrightarrow> compile_to_sampler tree namespace = Inl e"
  by (simp add: compile_to_sampler_def)

lemma compile_to_sampler_single_function:
  assumes "list_all (\<lambda>s. \<not> is_FunctionDef s) (visited body)"
    and "compile_to_sampler (Module [FunctionDef name a body decs ret]) namespace = Inr (m, n)"
  shows "n = name @ ''_sampler'' \<and> (\<exists>a' body'. m = Module [FunctionDef n a' body' [] ret])"
proof -
  from assms(2) obtain out st2 where
    v: "visit_stmts [FunctionDef name a body decs ret] new_SamplerCompiler = Inr (out, st2)"
    and m: "m = Module out" "n = fn_name st2"
    by (auto simp: compile_to_sampler_def split: sum.splits option.splits if_splits)
  from visit_stmts_Cons_success [OF v] obtain s1 st1 rest' where
    h: "visit_stmt (FunctionDef name a body decs ret) new_SamplerCompiler = Inr (s1, st1)"
    and r: "visit_stmts [] st1 = Inr (rest', st2)" "out = s1 # rest'"
    by blast
  from r(1) have st: "st2 = st1" "rest' = []" by auto
  from visit_FunctionDef_renamed [OF h] assms(1) obtain a' body' where
    s: "s1 = FunctionDef (name @ ''_sampler'') a' body' [] ret"
    and f: "fn_name st1 = name @ ''_sampler''" by blast
  from m r(2) s st f show ?thesis by simp
qed

subsection \<open>The registry of declared variables\<close>

text \<open>
  C10, as amended: after a successful visit the registry is the registry before it
  followed by the left-hand names of the declarations visited, in the order of the
  visit; a plain assignment adds nothing to it. A later declaration \<^verbatim>\<open>x @ f(args)\<close>
  whose name arguments are neither in the registry so far nor \<open>x\<close> itself (names bound
  by plain assignments only, for one) is replaced by the sampling statement with the
  leaf flag true, the one that passes \<^verbatim>\<open>sample_shape\<close>.
\<close>

theorem registry_holds_declared_names:
  "(visit_stmts body st = Inr (body', st') \<longrightarrow>
      model_vars st' = model_vars st @ declared_names body) \<and>
   (visit_stmt (Assign targets v tc) st = Inr (s1, st1) \<longrightarrow> model_vars st1 = model_vars st) \<and>
   (visit_stmts (pre @ [Expr (BinOp (Name x c) MatMult (Call f as ks))]) st = Inr (out, st2) \<longrightarrow>
      (\<forall>i c'. Name i c' \<in> set as \<longrightarrow>
         i \<notin> set (model_vars st) \<and> i \<notin> set (declared_names pre) \<and> i \<noteq> x) \<longrightarrow>
      (\<exists>d. last out = new_sample_expression x d as True))"
proof -
  have 1: "model_vars u' = model_vars u @ declared_names b"
    if "visit_stmts b u = Inr (b', u')" for b b' u u'
    using visit_model_vars(2) [OF that] by (simp add: declared_names_def)
  have 2: "visit_stmt (Assign targets v tc) st = Inr (s1, st1) \<longrightarrow> model_vars st1 = model_vars st"
    by auto
  have 3: "\<exists>d. last out = new_sample_expression x d as True"
    if v: "visit_stmts (pre @ [Expr (BinOp (Name x c) MatMult (Call f as ks))]) st = Inr (out, st2)"
      and n: "\<forall>i c'. Name i c' \<in> set as \<longrightarrow>
         i \<notin> set (model_vars st) \<and> i \<notin> set (declared_names pre) \<and> i \<noteq> x"
  proof -
    from v obtain pre' u s u' where
      p: "visit_stmts pre st = Inr (pre', u)"
      and d: "visit_stmts [Expr (BinOp (Name x c) MatMult (Call f as ks))] u = Inr (s, u')"
      and o: "out = pre' @ s"
      by (auto simp: visit_stmts_append split: sum.splits)
    from d obtain s' where
      e: "visit_Expr (BinOp (Name x c) MatMult (Call f as ks)) u = Inr (s', u')"
      and s: "s = [s']"
      by (auto split: sum.splits)
    from visit_Expr_success [OF e] obtain d where
      s': "s' = new_sample_expression x d as (is_leaf_node as (model_vars u @ [x]))"
      by blast
    from n have "is_leaf_node as (model_vars st @ declared_names pre @ [x])"
      by (auto simp: is_leaf_node_iff)
    with 1 [OF p] have "is_leaf_node as (model_vars u @ [x])" by simp
    with s' o s show ?thesis by auto
  qed
  from 1 2 3 show ?thesis by blast
qed

theorem registry_holds_declared_names_witness:
  "visit_stmts ([Assign [Name ''a'' Store] (Constant (IntValue 1)) None,
        Expr (BinOp (Name ''x'' Load) MatMult
          (Call (Name ''Normal'' Load) [Constant (IntValue 0), Constant (IntValue 1)] []))]
       @ [Expr (BinOp (Name ''y'' Load) MatMult
          (Call (Name ''Normal'' Load) [Name ''a'' Load, Constant (IntValue 1)] []))]) new_SamplerCompiler
   = Inr ([Assign [Name ''a'' Store] (Constant (IntValue 1)) None,
        Assign [Name ''x'' Store]
          (Call (Attribute (Call (Name ''Normal'' Load) [Constant (IntValue 0), Constant (IntValue 1)] [])
             ''sample'' Load) [Name ''rng_key'' Load, Name ''sample_shape'' Load] []) None,
        Assign [Name ''y'' Store]
          (Call (Attribute (Call (Name ''Normal'' Load) [Name ''a'' Load, Constant (IntValue 1)] [])
             ''sample'' Load) [Name ''rng_key'' Load, Name ''sample_shape'' Load] []) None],
       \<lparr>model_vars = [''x'', ''y''], fn_name = ''''\<rparr>) \<and>
   declared_names [Assign [Name ''a'' Store] (Constant (IntValue 1)) None,
        Expr (BinOp (Name ''x'' Load) MatMult
          (Call (Name ''Normal'' Load) [Constant (IntValue 0), Constant (IntValue 1)] []))] = [''x''] \<and>
   (\<exists>d. last [Assign [Name ''a'' Store] (Constant (IntValue 1)) None,
        Assign [Name ''x'' Store]
          (Call (Attribute (Call (Name ''Normal'' Load) [Constant (IntValue 0), Constant (IntValue 1)] [])
             ''sample'' Load) [Name ''rng_key'' Load, Name ''sample_shape'' Load] []) None,
        Assign [Name ''y'' Store]
          (Call (Attribute (Call (Name ''Normal'' Load) [Name ''a'' Load, Constant (IntValue 1)] [])
             ''sample'' Load) [Name ''rng_key'' Load, Name ''sample_shape'' Load] []) None]
      = new_sample_expression ''y'' d [Name ''a'' Load, Constant (IntValue 1)] True)"
proof -
  have e: "visit_stmts ([Assign [Name ''a'' Store] (Constant (IntValue 1)) None,
        Expr (BinOp (Name ''x'' Load) MatMult
          (Call (Name ''Normal'' Load) [Constant (IntValue 0), Constant (IntValue 1)] []))]
       @ [Expr (BinOp (Name ''y'' Load) MatMult
          (Call (Name ''Normal'' Load) [Name ''a'' Load, Constant (IntValue 1)] []))]) new_SamplerCompiler
   = Inr ([Assign [Name ''a'' Store] (Constant (IntValue 1)) None,
        Assign [Name ''x'' Store]
          (Call (Attribute (Call (Name ''Normal'' Load) [Constant (IntValue 0), Constant (IntValue 1)] [])
             ''sample'' Load) [Name ''rng_key'' Load, Name ''sample_shape'' Load] []) None,
        Assign [Name ''y'' Store]
          (Call (Attribute (Call (Name ''Normal'' Load) [Name ''a'' Load, Constant (IntValue 1)] [])
             ''sample'' Load) [Name ''rng_key'' Load, Name ''sample_shape'' Load] []) None],
       \<lparr>model_vars = [''x'', ''y''], fn_name = ''''\<rparr>)"
    by (simp add: new_SamplerCompiler_def Let_def visit_Expr_def new_sample_expression_def)
  have n: "declared_names [Assign [Name ''a'' Store] (Constant (IntValue 1)) None,
        Expr (BinOp (Name ''x'' Load) MatMult
          (Call (Name ''Normal'' Load) [Constant (IntValue 0), Constant (IntValue 1)] []))] = [''x'']"
    by (simp add: declared_names_def)
  have h: "(\<forall>i c'. Name i c' \<in> set [Name ''a'' Load, Constant (IntValue 1)] \<longrightarrow>
        i \<notin> set (model_vars new_SamplerCompiler) \<and>
        i \<notin> set (declared_names [Assign [Name ''a'' Store] (Constant (IntValue 1)) None,
        Expr (BinOp (Name ''x'' Load) MatMult
          (Call (Name ''Normal'' Load) [Constant (IntValue 0), Constant (IntValue 1)] []))]) \<and> i \<noteq> ''y'')"
    by (simp add: n new_SamplerCompiler_def)
  from registry_holds_declared_names [THEN conjunct2, THEN conjunct2, THEN mp, THEN mp, OF e h] e n
  show ?thesis by blast
qed

text \<open>
  C10 as the spec states it fails where a name bound by a plain assignment is also the
  left-hand name of a declaration visited before the classification. In
  \<^verbatim>\<open>x @ Normal(0, 1); x = 5; y @ Normal(x, 1)\<close> and in
  \<^verbatim>\<open>y = 3; y @ Normal(y, 1)\<close> the last declaration refers to a plainly assigned name
  only and is rewritten without \<^verbatim>\<open>sample_shape\<close>.
\<close>

theorem plain_assignment_reference_classified_non_leaf:
  "visit_module (Module [FunctionDef ''m''
       \<lparr>posonlyargs = [],
        args = [],
        vararg = None, kwonlyargs = [], kw_defaults = [],
        kwarg = None, defaults = []\<rparr>
       [Expr (BinOp (Name ''x'' Load) MatMult
          (Call (Name ''Normal'' Load) [Constant (IntValue 0), Constant (IntValue 1)] [])),
        Assign [Name ''x'' Store] (Constant (IntValue 5)) None,
        Expr (BinOp (Name ''y'' Load) MatMult
          (Call (Name ''Normal'' Load) [Name ''x'' Load, Constant (IntValue 1)] []))]
       [] None]) new_SamplerCompiler
   = Inr (Module [FunctionDef ''m_sampler''
       \<lparr>posonlyargs = [],
        args = [Arg ''rng_key'' None None, Arg ''sample_shape'' None None],
        vararg = None, kwonlyargs = [], kw_defaults = [],
        kwarg = None, defaults = [Tuple [] Load]\<rparr>
       [Assign [Name ''x'' Store]
          (Call (Attribute (Call (Name ''Normal'' Load) [Constant (IntValue 0), Constant (IntValue 1)] [])
             ''sample'' Load) [Name ''rng_key'' Load, Name ''sample_shape'' Load] []) None,
        Assign [Name ''x'' Store] (Constant (IntValue 5)) None,
        Assign [Name ''y'' Store]
          (Call (Attribute (Call (Name ''Normal'' Load) [Name ''x'' Load, Constant (IntValue 1)] [])
             ''sample'' Load) [Name ''rng_key'' Load] []) None]
       [] None],
       \<lparr>model_vars = [''x'', ''y''], fn_name = ''m_sampler''\<rparr>) \<and>
   visit_module (Module [FunctionDef ''m''
       \<lparr>posonlyargs = [],
        args = [],
        vararg = None, kwonlyargs = [], kw_defaults = [],
        kwarg = None, defaults = []\<rparr>
       [Assign [Name ''y'' Store] (Constant (IntValue 3)) None,
        Expr (BinOp (Name ''y'' Load) MatMult
          (Call (Name ''Normal'' Load) [Name ''y'' Load, Constant (IntValue 1)] []))]
       [] None]) new_SamplerCompiler
   = Inr (Module [FunctionDef ''m_sampler''
       \<lparr>posonlyargs = [],
        args = [Arg ''rng_key'' None None, Arg ''sample_shape'' None None],
        vararg = None, kwonlyargs = [], kw_defaults = [],
        kwarg = None, defaults = [Tuple [] Load]\<rparr>
       [Assign [Name ''y'' Store] (Constant (IntValue 3)) None,
        Assign [Name ''y'' Store]
          (Call (Attribute (Call (Name ''Normal'' Load) [Name ''y'' Load, Constant (IntValue 1)] [])
             ''sample'' Load) [Name ''rng_key'' Load] []) None]
       [] None],
       \<lparr>model_vars = [''y''], fn_name = ''m_sampler''\<rparr>)"
  by (simp add: visit_Expr_def new_sample_expression_def new_SamplerCompiler_def Let_def)

subsection \<open>Grammar violations\<close>















subsection \<open>One statement out for each statement in\<close>








end
